theory Spec2Isabelle
  imports Main "HOL-Library.Word" "HOL-Library.Sublist"
begin

section \<open>The mesh-to-chat bridge of meshtastic-client.py\<close>

text \<open>
  The development embeds \<^verbatim>\<open>src/python/meshtastic-client.py\<close>: the packet
  handler \<^verbatim>\<open>MeshtasticClient._on_receive\<close> with the directory lookup
  \<^verbatim>\<open>_id_to_name\<close>, the two client constructors, their \<^verbatim>\<open>close\<close>
  methods and the \<^verbatim>\<open>try/except/finally\<close> of \<^verbatim>\<open>main\<close>.
\<close>

subsection \<open>Python values and exceptions\<close>

text \<open>
  A Python \<^verbatim>\<open>str\<close> is a sequence of Unicode code points, a \<^verbatim>\<open>bytes\<close>
  object a sequence of octets. The packets and the node table are dictionaries keyed
  by strings; a dictionary is an association list read with \<^const>\<open>map_of\<close>.
\<close>

type_synonym pystr = "nat list"

definition ustr :: "string \<Rightarrow> pystr" where
  "ustr s = map of_char s"

datatype pyval =
    VNone
  | VInt int
  | VStr pystr
  | VBytes "8 word list"
  | VDict "(pystr \<times> pyval) list"

datatype error =
    KeyError pystr
  | TypeError
  | AttributeError
  | IndexError
  | ValueError
  | UnicodeDecodeError
  | OSError
  | ConnectionError
  | ConnectionRefusedError
  | RuntimeError
  | KeyboardInterrupt
  | SystemExit
  | GeneratorExit

type_synonym 'a res = "error + 'a"

text \<open>
  The classes are those that the modelled operations raise, four that the libraries
  raise, and the three that derive from \<^verbatim>\<open>BaseException\<close> only:
  \<^verbatim>\<open>except Exception\<close> catches every class but these three.
\<close>

definition is_Exception :: "error \<Rightarrow> bool" where
  "is_Exception e \<longleftrightarrow> e \<noteq> KeyboardInterrupt \<and> e \<noteq> SystemExit \<and> e \<noteq> GeneratorExit"

definition bind_res :: "'a res \<Rightarrow> ('a \<Rightarrow> 'b res) \<Rightarrow> 'b res" where
  "bind_res m f = (case m of Inl e \<Rightarrow> Inl e | Inr x \<Rightarrow> f x)"

text \<open>\<^verbatim>\<open>k in v\<close> for a string \<open>k\<close>: key membership in a dictionary, substring test in a
  string, \<^verbatim>\<open>TypeError\<close> for bytes, integers and \<^verbatim>\<open>None\<close>.\<close>

fun substr :: "'a list \<Rightarrow> 'a list \<Rightarrow> bool" where
  "substr k [] = (k = [])"
| "substr k (c # cs) = (prefix k (c # cs) \<or> substr k cs)"

fun py_contains :: "pyval \<Rightarrow> pystr \<Rightarrow> bool res" where
  "py_contains (VDict d) k = Inr (map_of d k \<noteq> None)"
| "py_contains (VStr s) k = Inr (substr k s)"
| "py_contains VNone k = Inl TypeError"
| "py_contains (VInt n) k = Inl TypeError"
| "py_contains (VBytes b) k = Inl TypeError"

text \<open>\<^verbatim>\<open>v[k]\<close> for a string \<open>k\<close>: \<^verbatim>\<open>KeyError\<close> on a dictionary without the key,
  \<^verbatim>\<open>TypeError\<close> on every other value.\<close>

fun py_getitem :: "pyval \<Rightarrow> pystr \<Rightarrow> pyval res" where
  "py_getitem (VDict d) k = (case map_of d k of None \<Rightarrow> Inl (KeyError k) | Some v \<Rightarrow> Inr v)"
| "py_getitem VNone k = Inl TypeError"
| "py_getitem (VInt n) k = Inl TypeError"
| "py_getitem (VStr s) k = Inl TypeError"
| "py_getitem (VBytes b) k = Inl TypeError"

text \<open>\<^verbatim>\<open>v.items()\<close>: only a dictionary has the method.\<close>

fun py_items :: "pyval \<Rightarrow> (pystr \<times> pyval) list res" where
  "py_items (VDict d) = Inr d"
| "py_items VNone = Inl AttributeError"
| "py_items (VInt n) = Inl AttributeError"
| "py_items (VStr s) = Inl AttributeError"
| "py_items (VBytes b) = Inl AttributeError"

subsection \<open>Decoding UTF-8\<close>

text \<open>
  \<^verbatim>\<open>bytes.decode("utf-8")\<close> in strict mode: shortest forms only, no surrogates,
  nothing above U+10FFFF. \<open>None\<close> stands for \<^verbatim>\<open>UnicodeDecodeError\<close>.
\<close>

definition cont :: "8 word \<Rightarrow> bool" where
  "cont b \<longleftrightarrow> 0x80 \<le> b \<and> b \<le> 0xBF"

definition low6 :: "8 word \<Rightarrow> nat" where
  "low6 b = unat b mod 64"

fun utf8_decode :: "8 word list \<Rightarrow> pystr option" where
  "utf8_decode [] = Some []"
| "utf8_decode (b0 # bs) =
     (if b0 < 0x80 then map_option (Cons (unat b0)) (utf8_decode bs)
      else if 0xC2 \<le> b0 \<and> b0 \<le> 0xDF then
        (case bs of
           b1 # r \<Rightarrow>
             if cont b1
             then map_option (Cons ((unat b0 mod 32) * 64 + low6 b1)) (utf8_decode r)
             else None
         | _ \<Rightarrow> None)
      else if 0xE0 \<le> b0 \<and> b0 \<le> 0xEF then
        (case bs of
           b1 # b2 # r \<Rightarrow>
             if (if b0 = 0xE0 then 0xA0 else 0x80) \<le> b1
                \<and> b1 \<le> (if b0 = 0xED then 0x9F else 0xBF) \<and> cont b2
             then map_option (Cons ((unat b0 mod 16) * 4096 + low6 b1 * 64 + low6 b2))
                    (utf8_decode r)
             else None
         | _ \<Rightarrow> None)
      else if 0xF0 \<le> b0 \<and> b0 \<le> 0xF4 then
        (case bs of
           b1 # b2 # b3 # r \<Rightarrow>
             if (if b0 = 0xF0 then 0x90 else 0x80) \<le> b1
                \<and> b1 \<le> (if b0 = 0xF4 then 0x8F else 0xBF) \<and> cont b2 \<and> cont b3
             then map_option
                    (Cons ((unat b0 mod 8) * 262144 + low6 b1 * 4096 + low6 b2 * 64 + low6 b3))
                    (utf8_decode r)
             else None
         | _ \<Rightarrow> None)
      else None)"

text \<open>\<^verbatim>\<open>v.decode("utf-8")\<close>: only \<^verbatim>\<open>bytes\<close> has the method.\<close>

fun py_decode :: "pyval \<Rightarrow> pystr res" where
  "py_decode (VBytes b) =
     (case utf8_decode b of None \<Rightarrow> Inl UnicodeDecodeError | Some s \<Rightarrow> Inr s)"
| "py_decode VNone = Inl AttributeError"
| "py_decode (VInt n) = Inl AttributeError"
| "py_decode (VStr s) = Inl AttributeError"
| "py_decode (VDict d) = Inl AttributeError"

subsection \<open>split and upper\<close>

text \<open>
  \<^verbatim>\<open>s.split()\<close> without arguments scans the string once: runs of whitespace
  separate the tokens and no empty token is produced. \<open>cur\<close> is the token being read.
\<close>

fun split_ws :: "('a \<Rightarrow> bool) \<Rightarrow> 'a list \<Rightarrow> 'a list \<Rightarrow> 'a list list" where
  "split_ws sp cur [] = (if cur = [] then [] else [cur])"
| "split_ws sp cur (c # cs) =
     (if sp c then (if cur = [] then split_ws sp [] cs else cur # split_ws sp [] cs)
      else split_ws sp (cur @ [c]) cs)"

text \<open>The code points for which \<^verbatim>\<open>str.isspace\<close> holds, and the ASCII whitespace of
  \<^verbatim>\<open>bytes.split\<close>.\<close>

definition py_isspace :: "nat \<Rightarrow> bool" where
  "py_isspace c \<longleftrightarrow>
     (0x09 \<le> c \<and> c \<le> 0x0D) \<or> (0x1C \<le> c \<and> c \<le> 0x20) \<or> c = 0x85 \<or> c = 0xA0
     \<or> c = 0x1680 \<or> (0x2000 \<le> c \<and> c \<le> 0x200A) \<or> c = 0x2028 \<or> c = 0x2029
     \<or> c = 0x202F \<or> c = 0x205F \<or> c = 0x3000"

definition byte_isspace :: "8 word \<Rightarrow> bool" where
  "byte_isspace b \<longleftrightarrow> (0x09 \<le> b \<and> b \<le> 0x0D) \<or> b = 0x20"

definition byte_upper :: "8 word \<Rightarrow> 8 word" where
  "byte_upper b = (if 0x61 \<le> b \<and> b \<le> 0x7A then b - 0x20 else b)"

fun py_split :: "pyval \<Rightarrow> pyval list res" where
  "py_split (VStr s) = Inr (map VStr (split_ws py_isspace [] s))"
| "py_split (VBytes b) = Inr (map VBytes (split_ws byte_isspace [] b))"
| "py_split VNone = Inl AttributeError"
| "py_split (VInt n) = Inl AttributeError"
| "py_split (VDict d) = Inl AttributeError"

text \<open>\<^verbatim>\<open>xs[0]\<close> on a list.\<close>

fun py_first :: "'a list \<Rightarrow> 'a res" where
  "py_first [] = Inl IndexError"
| "py_first (x # xs) = Inr x"

text \<open>
  \<^verbatim>\<open>str.upper\<close> replaces every code point by its full uppercase mapping of the
  Unicode character database. The table is not part of the repository: it is the
  parameter \<open>up\<close>. \<^verbatim>\<open>bytes.upper\<close> changes the ASCII letters only.
\<close>

fun py_upper :: "(nat \<Rightarrow> nat list) \<Rightarrow> pyval \<Rightarrow> pyval res" where
  "py_upper up (VStr s) = Inr (VStr (concat (map up s)))"
| "py_upper up (VBytes b) = Inr (VBytes (map byte_upper b))"
| "py_upper up VNone = Inl AttributeError"
| "py_upper up (VInt n) = Inl AttributeError"
| "py_upper up (VDict d) = Inl AttributeError"

text \<open>The uppercase table restricted to ASCII, for concrete runs.\<close>

definition ascii_upper :: "nat \<Rightarrow> nat list" where
  "ascii_upper c = (if 0x61 \<le> c \<and> c \<le> 0x7A then [c - 0x20] else [c])"

subsection \<open>The logger, the callback and the observable effects\<close>

text \<open>
  A log record is the level and the message of one call to the logger; the messages
  are the templates of the source with their arguments.
\<close>

datatype level = DEBUG | INFO | ERROR

datatype logmsg =
    MsgConnected
  | MsgConnectError error
  | MsgReceived pystr pyval
  | MsgNonUtf8
  | MsgCallback pyval pystr
  | MsgMattermostError pyval
  | MsgExiting

type_synonym logentry = "level \<times> logmsg"

text \<open>
  The callback receives the callsign, the text and the logger: it may write log
  records and may raise.
\<close>

type_synonym callback = "pyval \<Rightarrow> pystr \<Rightarrow> logentry list \<times> unit res"

text \<open>
  The calls into the two libraries that the process makes. An effect records that
  the call was evaluated, whether it then returned or raised: its outcome is in the
  result of the function that made it.
\<close>

datatype effect =
    Connect pyval nat
  | Subscribe pystr
  | NewDriver
  | CloseInterface
  | CloseDriver

text \<open>
  What an observer of the process sees: the log records in the order written,
  every invocation of the callback with its arguments (\<open>dispatched\<close>), and the
  library calls in the order made.
\<close>

record world =
  logged :: "logentry list"
  dispatched :: "(pyval \<times> pystr) list"
  effects :: "effect list"

text \<open>\<^verbatim>\<open>mestastic_callback\<close>, the callback that \<^verbatim>\<open>main\<close> installs.\<close>

definition mestastic_callback :: callback where
  "mestastic_callback callsign message = ([(DEBUG, MsgCallback callsign message)], Inr ())"

subsection \<open>The node directory and \<^verbatim>\<open>_id_to_name\<close>\<close>

text \<open>The mesh interface object, as far as the handler reads it: its node table.\<close>

record tcp_interface =
  nodes :: pyval

text \<open>
  The loop of \<^verbatim>\<open>_id_to_name\<close> over \<^verbatim>\<open>interface.nodes.items()\<close>: the first entry
  whose key equals \<open>id\<close> is read and the loop is left; without such an entry the two
  names keep their initial value, the empty string.
\<close>

fun id_to_name_loop :: "(pystr \<times> pyval) list \<Rightarrow> pyval \<Rightarrow> (pyval \<times> pyval) res" where
  "id_to_name_loop [] ident = Inr (VStr [], VStr [])"
| "id_to_name_loop ((node_id, node_info) # rest) ident =
     (if ident = VStr node_id then
        bind_res (py_getitem node_info (ustr ''user'')) (\<lambda>user.
        bind_res (py_getitem user (ustr ''longName'')) (\<lambda>long_name.
        bind_res (py_getitem user (ustr ''shortName'')) (\<lambda>short_name.
        Inr (short_name, long_name))))
      else id_to_name_loop rest ident)"

definition id_to_name :: "tcp_interface \<Rightarrow> pyval \<Rightarrow> (pyval \<times> pyval) res" where
  "id_to_name iface ident =
     bind_res (py_items (nodes iface)) (\<lambda>items. id_to_name_loop items ident)"

subsection \<open>\<^verbatim>\<open>_on_receive\<close>\<close>

text \<open>The condition of the \<^verbatim>\<open>if\<close>, with the short circuit of \<^verbatim>\<open>and\<close>.\<close>

definition is_text_message :: "pyval \<Rightarrow> bool res" where
  "is_text_message packet =
     bind_res (py_contains packet (ustr ''decoded'')) (\<lambda>has_decoded.
     if \<not> has_decoded then Inr False else
     bind_res (py_getitem packet (ustr ''decoded'')) (\<lambda>decoded.
     bind_res (py_contains decoded (ustr ''portnum'')) (\<lambda>has_portnum.
     if \<not> has_portnum then Inr False else
     bind_res (py_getitem packet (ustr ''decoded'')) (\<lambda>decoded'.
     bind_res (py_getitem decoded' (ustr ''portnum'')) (\<lambda>portnum.
     Inr (portnum = VStr (ustr ''TEXT_MESSAGE_APP'')))))))"

text \<open>
  The first four statements of the \<^verbatim>\<open>try\<close> block: the text of the payload and the
  callsign of the sender.
\<close>

definition decode_message ::
  "(nat \<Rightarrow> nat list) \<Rightarrow> pyval \<Rightarrow> tcp_interface \<Rightarrow> (pystr \<times> pyval) res" where
  "decode_message up packet iface =
     bind_res (py_getitem packet (ustr ''decoded'')) (\<lambda>decoded.
     bind_res (py_getitem decoded (ustr ''payload'')) (\<lambda>payload.
     bind_res (py_decode payload) (\<lambda>text_message.
     bind_res (py_getitem packet (ustr ''fromId'')) (\<lambda>from_id.
     bind_res (id_to_name iface from_id) (\<lambda>(short_name, long_name).
     bind_res (py_split long_name) (\<lambda>tokens.
     bind_res (py_first tokens) (\<lambda>token.
     bind_res (py_upper up token) (\<lambda>callsign.
     Inr (text_message, callsign)))))))))"

text \<open>The whole \<^verbatim>\<open>try\<close> block: after the decoding, the debug record and the callback.\<close>

definition try_block ::
  "(nat \<Rightarrow> nat list) \<Rightarrow> callback \<Rightarrow> pyval \<Rightarrow> tcp_interface \<Rightarrow> world \<Rightarrow> unit res \<times> world" where
  "try_block up cb packet iface w =
     (case decode_message up packet iface of
        Inl e \<Rightarrow> (Inl e, w)
      | Inr (text_message, callsign) \<Rightarrow>
          (case cb callsign text_message of
             (records, r) \<Rightarrow>
               (r, w\<lparr>logged := logged w @ (DEBUG, MsgReceived text_message callsign) # records,
                     dispatched := dispatched w @ [(callsign, text_message)]\<rparr>)))"

text \<open>The handler \<^verbatim>\<open>except UnicodeDecodeError\<close>: every other exception goes on.\<close>

definition except_UnicodeDecodeError :: "unit res \<times> world \<Rightarrow> unit res \<times> world" where
  "except_UnicodeDecodeError rw =
     (case rw of (r, w) \<Rightarrow>
        if r = Inl UnicodeDecodeError
        then (Inr (), w\<lparr>logged := logged w @ [(DEBUG, MsgNonUtf8)]\<rparr>)
        else (r, w))"

definition on_receive ::
  "(nat \<Rightarrow> nat list) \<Rightarrow> callback \<Rightarrow> pyval \<Rightarrow> tcp_interface \<Rightarrow> world \<Rightarrow> unit res \<times> world" where
  "on_receive up cb packet iface w =
     (case is_text_message packet of
        Inl e \<Rightarrow> (Inl e, w)
      | Inr False \<Rightarrow> (Inr (), w)
      | Inr True \<Rightarrow> except_UnicodeDecodeError (try_block up cb packet iface w))"

subsection \<open>The environment of the process\<close>

text \<open>
  The outcomes of the library calls are inputs of the model: the constructor
  \<^verbatim>\<open>tcp.TCPInterface(hostname, portNumber, connectNow=True)\<close>, the constructor
  \<^verbatim>\<open>Driver(login_config)\<close>, the \<open>i\<close>-th call \<^verbatim>\<open>time.sleep(1)\<close> of the main
  loop (an exception raised there, or \<open>None\<close> when it returns), and the calls
  \<^verbatim>\<open>self.interface.close()\<close> and \<^verbatim>\<open>self.driver.close()\<close>. The table of the
  decimal digits of the Unicode character database, which the built-in \<^verbatim>\<open>int\<close>
  reads, is an input as well.
\<close>

record login_config =
  url :: pyval
  token :: pyval
  scheme :: pyval
  port :: int
  basepath :: pyval

record env =
  tcp_connect :: "pyval \<Rightarrow> nat \<Rightarrow> tcp_interface res"
  driver_new :: "login_config \<Rightarrow> unit res"
  sleep :: "nat \<Rightarrow> error option"
  interface_close :: "unit res"
  driver_close :: "unit res"
  decimal :: "nat \<Rightarrow> nat option"

subsection \<open>\<^verbatim>\<open>MeshtasticClient\<close>\<close>

record meshtastic_client =
  hostname :: pyval
  callback :: callback
  interface :: tcp_interface

text \<open>
  The constructor: one connection attempt on port 4403; on success the debug record
  and the subscription of \<^verbatim>\<open>_on_receive\<close> to the topic
  \<^verbatim>\<open>meshtastic.receive\<close>; an \<^verbatim>\<open>Exception\<close> is logged and raised again.
\<close>

definition MeshtasticClient_init ::
  "env \<Rightarrow> pyval \<Rightarrow> callback \<Rightarrow> world \<Rightarrow> meshtastic_client res \<times> world" where
  "MeshtasticClient_init ev host cb w =
     (let w1 = w\<lparr>effects := effects w @ [Connect host 4403]\<rparr> in
      case tcp_connect ev host 4403 of
        Inr i \<Rightarrow>
          (Inr \<lparr>hostname = host, callback = cb, interface = i\<rparr>,
           w1\<lparr>logged := logged w1 @ [(DEBUG, MsgConnected)],
               effects := effects w1 @ [Subscribe (ustr ''meshtastic.receive'')]\<rparr>)
      | Inl e \<Rightarrow>
          if is_Exception e
          then (Inl e, w1\<lparr>logged := logged w1 @ [(ERROR, MsgConnectError e)]\<rparr>)
          else (Inl e, w1))"

text \<open>\<^verbatim>\<open>close\<close>: the call \<^verbatim>\<open>self.interface.close()\<close>, which returns or raises.\<close>

definition MeshtasticClient_close ::
  "env \<Rightarrow> meshtastic_client \<Rightarrow> world \<Rightarrow> unit res \<times> world" where
  "MeshtasticClient_close ev client w =
     (interface_close ev, w\<lparr>effects := effects w @ [CloseInterface]\<rparr>)"

text \<open>
  The publish-subscribe library calls a listener with every message whose topic is
  the subscribed topic or lies below it in the dotted hierarchy. The handler of the
  client is called for the topics covered by its subscriptions, and for no other.
\<close>

definition topic_covers :: "pystr \<Rightarrow> pystr \<Rightarrow> bool" where
  "topic_covers t m \<longleftrightarrow> m = t \<or> prefix (t @ ustr ''.'') m"

definition subscribed :: "world \<Rightarrow> pystr \<Rightarrow> bool" where
  "subscribed w m \<longleftrightarrow> (\<exists>t \<in> set (effects w). case t of Subscribe tp \<Rightarrow> topic_covers tp m | _ \<Rightarrow> False)"

definition pub_sendMessage ::
  "(nat \<Rightarrow> nat list) \<Rightarrow> meshtastic_client \<Rightarrow> pystr \<Rightarrow> pyval \<Rightarrow> tcp_interface \<Rightarrow> world
     \<Rightarrow> unit res \<times> world" where
  "pub_sendMessage up client topic packet iface w =
     (if subscribed w topic then on_receive up (callback client) packet iface w
      else (Inr (), w))"

text \<open>The connection attempts made so far.\<close>

definition connects :: "world \<Rightarrow> effect list" where
  "connects w = filter (\<lambda>x. case x of Connect h p \<Rightarrow> True | _ \<Rightarrow> False) (effects w)"

subsection \<open>\<^verbatim>\<open>MattermostClient\<close>\<close>

text \<open>
  \<^verbatim>\<open>int(v)\<close>. An integer is returned as it is. A string is stripped of the
  whitespace around it; an optional sign follows, then decimal digits, with single
  underscores allowed between two digits; more than 4300 digits are refused. The
  digits of a \<^verbatim>\<open>str\<close> are those of the table \<open>dg\<close>, the digits of
  \<^verbatim>\<open>bytes\<close> the ASCII ones. \<open>prev\<close> tells that the character before was a
  digit, \<open>n\<close> counts the digits, \<open>acc\<close> is their value.
\<close>

definition ascii_decimal :: "nat \<Rightarrow> nat option" where
  "ascii_decimal c = (if 0x30 \<le> c \<and> c \<le> 0x39 then Some (c - 0x30) else None)"

fun digits_value ::
  "(nat \<Rightarrow> nat option) \<Rightarrow> bool \<Rightarrow> nat \<Rightarrow> nat \<Rightarrow> nat list \<Rightarrow> nat option" where
  "digits_value dg prev n acc [] = (if prev \<and> n \<le> 4300 then Some acc else None)"
| "digits_value dg prev n acc (c # cs) =
     (case dg c of
        Some v \<Rightarrow> digits_value dg True (Suc n) (10 * acc + v) cs
      | None \<Rightarrow> if c = 0x5F \<and> prev then digits_value dg False n acc cs else None)"

definition parse_int :: "(nat \<Rightarrow> nat option) \<Rightarrow> (nat \<Rightarrow> bool) \<Rightarrow> nat list \<Rightarrow> int option" where
  "parse_int dg sp s =
     (case rev (dropWhile sp (rev (dropWhile sp s))) of
        [] \<Rightarrow> None
      | c # cs \<Rightarrow>
          if c = 0x2D then map_option (\<lambda>k. - int k) (digits_value dg False 0 0 cs)
          else if c = 0x2B then map_option int (digits_value dg False 0 0 cs)
          else map_option int (digits_value dg False 0 0 (c # cs)))"

fun py_int :: "(nat \<Rightarrow> nat option) \<Rightarrow> pyval \<Rightarrow> int res" where
  "py_int dg (VInt n) = Inr n"
| "py_int dg (VStr s) =
     (case parse_int dg py_isspace s of None \<Rightarrow> Inl ValueError | Some n \<Rightarrow> Inr n)"
| "py_int dg (VBytes b) =
     (case parse_int ascii_decimal (\<lambda>c. (0x09 \<le> c \<and> c \<le> 0x0D) \<or> c = 0x20) (map unat b) of
        None \<Rightarrow> Inl ValueError
      | Some n \<Rightarrow> Inr n)"
| "py_int dg VNone = Inl TypeError"
| "py_int dg (VDict d) = Inl TypeError"

text \<open>\<^verbatim>\<open>v.get(k, default)\<close> and \<^verbatim>\<open>v.rstrip("/")\<close>.\<close>

fun py_get :: "pyval \<Rightarrow> pystr \<Rightarrow> pyval \<Rightarrow> pyval res" where
  "py_get (VDict d) k dflt = Inr (case map_of d k of None \<Rightarrow> dflt | Some v \<Rightarrow> v)"
| "py_get VNone k dflt = Inl AttributeError"
| "py_get (VInt n) k dflt = Inl AttributeError"
| "py_get (VStr s) k dflt = Inl AttributeError"
| "py_get (VBytes b) k dflt = Inl AttributeError"

fun py_rstrip_slash :: "pyval \<Rightarrow> pyval res" where
  "py_rstrip_slash (VStr s) = Inr (VStr (rev (dropWhile (\<lambda>c. c = 0x2F) (rev s))))"
| "py_rstrip_slash (VBytes b) = Inl TypeError"
| "py_rstrip_slash VNone = Inl AttributeError"
| "py_rstrip_slash (VInt n) = Inl AttributeError"
| "py_rstrip_slash (VDict d) = Inl AttributeError"

record mattermost_client =
  host :: pyval
  team :: pyval
  user :: pyval
  mattermost_login_config :: login_config

text \<open>The statements of the constructor before its \<^verbatim>\<open>try\<close>: the fields read from
  the configuration.\<close>

definition MattermostClient_fields :: "env \<Rightarrow> pyval \<Rightarrow> mattermost_client res" where
  "MattermostClient_fields ev config =
     bind_res (py_get config (ustr ''host'') (VStr [])) (\<lambda>h.
     bind_res (py_get config (ustr ''token'') (VStr [])) (\<lambda>tok.
     bind_res (py_get config (ustr ''scheme'') (VStr (ustr ''http''))) (\<lambda>sch.
     bind_res (py_get config (ustr ''port'') (VInt 80)) (\<lambda>p.
     bind_res (py_int (decimal ev) p) (\<lambda>prt.
     bind_res (py_get config (ustr ''basepath'') (VStr (ustr ''/api/v4''))) (\<lambda>bp.
     bind_res (py_rstrip_slash bp) (\<lambda>bpath.
     bind_res (py_get config (ustr ''team'') (VStr [])) (\<lambda>tm.
     bind_res (py_get config (ustr ''user'') (VStr [])) (\<lambda>usr.
     Inr \<lparr>host = h, team = tm, user = usr,
          mattermost_login_config =
            \<lparr>url = h, token = tok, scheme = sch, port = prt, basepath = bpath\<rparr>\<rparr>)))))))))"

definition MattermostClient_init ::
  "env \<Rightarrow> pyval \<Rightarrow> world \<Rightarrow> mattermost_client res \<times> world" where
  "MattermostClient_init ev config w =
     (case MattermostClient_fields ev config of
        Inl e \<Rightarrow> (Inl e, w)
      | Inr client \<Rightarrow>
          (let w1 = w\<lparr>effects := effects w @ [NewDriver]\<rparr> in
           case driver_new ev (mattermost_login_config client) of
             Inr u \<Rightarrow> (Inr client, w1)
           | Inl e \<Rightarrow>
               if is_Exception e
               then (Inl e, w1\<lparr>logged := logged w1 @ [(ERROR, MsgMattermostError (host client))]\<rparr>)
               else (Inl e, w1)))"

text \<open>\<^verbatim>\<open>close\<close>: the call \<^verbatim>\<open>self.driver.close()\<close>, which returns or raises.\<close>

definition MattermostClient_close ::
  "env \<Rightarrow> mattermost_client \<Rightarrow> world \<Rightarrow> unit res \<times> world" where
  "MattermostClient_close ev client w =
     (driver_close ev, w\<lparr>effects := effects w @ [CloseDriver]\<rparr>)"

subsection \<open>\<^verbatim>\<open>main\<close>\<close>

text \<open>
  The loop \<^verbatim>\<open>while True: time.sleep(1)\<close> ends only by an exception raised in
  \<^verbatim>\<open>time.sleep\<close>; \<open>None\<close> is the loop that never ends.
\<close>

partial_function (option) sleep_loop :: "env \<Rightarrow> nat \<Rightarrow> error option" where
  "sleep_loop ev i = (case sleep ev i of None \<Rightarrow> sleep_loop ev (Suc i) | Some e \<Rightarrow> Some e)"

text \<open>
  The body of the \<^verbatim>\<open>try\<close> of \<^verbatim>\<open>main\<close> never completes normally: it yields the
  exception that ends it, with the two client variables as they are then.
\<close>

definition main_try ::
  "env \<Rightarrow> pyval \<Rightarrow> world
     \<Rightarrow> (error \<times> meshtastic_client option \<times> mattermost_client option \<times> world) option" where
  "main_try ev config w =
     (case py_get config (ustr ''meshtastic'') (VDict []) of
        Inl e \<Rightarrow> Some (e, None, None, w)
      | Inr meshtastic_config \<Rightarrow>
     (case py_get config (ustr ''mattermost'') (VDict []) of
        Inl e \<Rightarrow> Some (e, None, None, w)
      | Inr mattermost_config \<Rightarrow>
     (case py_get meshtastic_config (ustr ''host'') (VStr []) of
        Inl e \<Rightarrow> Some (e, None, None, w)
      | Inr h \<Rightarrow>
     (case MeshtasticClient_init ev h mestastic_callback w of
        (Inl e, w1) \<Rightarrow> Some (e, None, None, w1)
      | (Inr meshtastic_client, w1) \<Rightarrow>
     (case MattermostClient_init ev mattermost_config w1 of
        (Inl e, w2) \<Rightarrow> Some (e, Some meshtastic_client, None, w2)
      | (Inr mattermost_client, w2) \<Rightarrow>
          map_option (\<lambda>e. (e, Some meshtastic_client, Some mattermost_client, w2))
            (sleep_loop ev 0))))))"

text \<open>
  The \<^verbatim>\<open>finally\<close> clause: the two \<^verbatim>\<open>close\<close> calls in sequence, each for a
  client variable that is not \<^verbatim>\<open>None\<close>; an exception of the first call skips
  the second.
\<close>

definition main_finally ::
  "env \<Rightarrow> meshtastic_client option \<Rightarrow> mattermost_client option \<Rightarrow> world
     \<Rightarrow> unit res \<times> world" where
  "main_finally ev meshtastic_client mattermost_client w =
     (case (case meshtastic_client of
              None \<Rightarrow> (Inr (), w)
            | Some c \<Rightarrow> MeshtasticClient_close ev c w) of
        (Inl e, w1) \<Rightarrow> (Inl e, w1)
      | (Inr u, w1) \<Rightarrow>
          (case mattermost_client of
             None \<Rightarrow> (Inr (), w1)
           | Some c \<Rightarrow> MattermostClient_close ev c w1))"

text \<open>
  \<^verbatim>\<open>main\<close> from the two client variables on, for a configuration already
  loaded. \<open>Inr ()\<close> is the normal return, \<open>Inl e\<close> the exception that leaves
  \<^verbatim>\<open>main\<close> and ends the process with a traceback; \<open>None\<close> is the process that
  runs for ever. A \<^verbatim>\<open>KeyboardInterrupt\<close> is handled by the \<^verbatim>\<open>except\<close> clause,
  every other exception stays pending; an exception raised in the \<^verbatim>\<open>finally\<close>
  clause replaces it.
\<close>

definition main :: "env \<Rightarrow> pyval \<Rightarrow> world \<Rightarrow> (unit res \<times> world) option" where
  "main ev config w =
     map_option
       (\<lambda>(e, meshtastic_client, mattermost_client, w1).
          let pending = (if e = KeyboardInterrupt then Inr () else Inl e);
              w2 = (if e = KeyboardInterrupt
                    then w1\<lparr>logged := logged w1 @ [(INFO, MsgExiting)]\<rparr> else w1)
          in case main_finally ev meshtastic_client mattermost_client w2 of
               (Inl e', w3) \<Rightarrow> (Inl e', w3)
             | (Inr u, w3) \<Rightarrow> (pending, w3))
       (main_try ev config w)"

subsection \<open>The handler as the specification words it\<close>

text \<open>
  The first whitespace-delimited token of a string, in the words of the
  specification: what follows the leading whitespace, up to the next whitespace;
  there is none in a string of whitespace only.
\<close>

definition spec_first_token :: "('a \<Rightarrow> bool) \<Rightarrow> 'a list \<Rightarrow> 'a list option" where
  "spec_first_token sp s =
     (case dropWhile sp s of [] \<Rightarrow> None | c # cs \<Rightarrow> Some (takeWhile (\<lambda>x. \<not> sp x) (c # cs)))"

definition spec_callsign :: "(nat \<Rightarrow> nat list) \<Rightarrow> pystr \<Rightarrow> pystr option" where
  "spec_callsign up long_name =
     map_option (\<lambda>t. concat (map up t)) (spec_first_token py_isspace long_name)"

subsection \<open>Concrete packets, directories and environments\<close>

definition empty_world :: world where
  "empty_world = \<lparr>logged = [], dispatched = [], effects = []\<rparr>"

text \<open>The text packet of the scenarios: \<^verbatim>\<open>Hello\<close> from \<^verbatim>\<open>!abc123\<close>.\<close>

definition hello_packet :: pyval where
  "hello_packet =
     VDict [(ustr ''decoded'',
             VDict [(ustr ''portnum'', VStr (ustr ''TEXT_MESSAGE_APP'')),
                    (ustr ''payload'', VBytes [0x48, 0x65, 0x6C, 0x6C, 0x6F])]),
            (ustr ''fromId'', VStr (ustr ''!abc123''))]"

definition alice_directory :: tcp_interface where
  "alice_directory =
     \<lparr>nodes = VDict [(ustr ''!abc123'',
                      VDict [(ustr ''num'', VInt 11256099),
                             (ustr ''user'',
                              VDict [(ustr ''id'', VStr (ustr ''!abc123'')),
                                     (ustr ''longName'', VStr (ustr ''Alice Example'')),
                                     (ustr ''shortName'', VStr (ustr ''ALEX''))])])]\<rparr>"

definition empty_directory :: tcp_interface where
  "empty_directory = \<lparr>nodes = VDict []\<rparr>"

definition position_packet :: pyval where
  "position_packet =
     VDict [(ustr ''decoded'',
             VDict [(ustr ''portnum'', VStr (ustr ''POSITION_APP'')),
                    (ustr ''payload'', VBytes [0x0D, 0x01])]),
            (ustr ''fromId'', VStr (ustr ''!abc123''))]"

definition no_payload_packet :: pyval where
  "no_payload_packet =
     VDict [(ustr ''decoded'', VDict [(ustr ''portnum'', VStr (ustr ''TEXT_MESSAGE_APP''))]),
            (ustr ''fromId'', VStr (ustr ''!abc123''))]"

definition no_sender_packet :: pyval where
  "no_sender_packet =
     VDict [(ustr ''decoded'',
             VDict [(ustr ''portnum'', VStr (ustr ''TEXT_MESSAGE_APP'')),
                    (ustr ''payload'', VBytes [0x48, 0x65, 0x6C, 0x6C, 0x6F])])]"

definition bad_utf8_packet :: pyval where
  "bad_utf8_packet =
     VDict [(ustr ''decoded'',
             VDict [(ustr ''portnum'', VStr (ustr ''TEXT_MESSAGE_APP'')),
                    (ustr ''payload'', VBytes [0x48, 0xFF])]),
            (ustr ''fromId'', VStr (ustr ''!abc123''))]"

definition undecoded_packet :: pyval where
  "undecoded_packet = VDict [(ustr ''fromId'', VStr (ustr ''!abc123'')), (ustr ''encrypted'', VBytes [0x01])]"

definition no_portnum_packet :: pyval where
  "no_portnum_packet =
     VDict [(ustr ''decoded'', VDict [(ustr ''payload'', VBytes [0x48])]),
            (ustr ''fromId'', VStr (ustr ''!abc123''))]"

text \<open>A second text packet: \<^verbatim>\<open>Bye\<close> from the same sender.\<close>

definition bye_packet :: pyval where
  "bye_packet =
     VDict [(ustr ''decoded'',
             VDict [(ustr ''portnum'', VStr (ustr ''TEXT_MESSAGE_APP'')),
                    (ustr ''payload'', VBytes [0x42, 0x79, 0x65])]),
            (ustr ''fromId'', VStr (ustr ''!abc123''))]"

text \<open>
  Directories in which the sender is found, but its entry has a long name and no
  short name, or a long name of blanks, or no \<^verbatim>\<open>user\<close> section.
\<close>

definition long_name_only_directory :: tcp_interface where
  "long_name_only_directory =
     \<lparr>nodes = VDict [(ustr ''!abc123'',
                      VDict [(ustr ''user'',
                              VDict [(ustr ''longName'', VStr (ustr ''Alice Example''))])])]\<rparr>"

definition blank_name_directory :: tcp_interface where
  "blank_name_directory =
     \<lparr>nodes = VDict [(ustr ''!abc123'',
                      VDict [(ustr ''user'',
                              VDict [(ustr ''longName'', VStr (ustr ''  '')),
                                     (ustr ''shortName'', VStr (ustr ''ALEX''))])])]\<rparr>"

definition no_user_directory :: tcp_interface where
  "no_user_directory =
     \<lparr>nodes = VDict [(ustr ''!abc123'', VDict [(ustr ''num'', VInt 11256099)])]\<rparr>"

text \<open>A callback whose chat collaborator is down, and one that fails on the text
  \<^verbatim>\<open>Hello\<close> only.\<close>

definition failing_callback :: callback where
  "failing_callback callsign message = ([], Inl ConnectionError)"

definition fails_on_hello :: callback where
  "fails_on_hello callsign message =
     (if message = ustr ''Hello'' then ([], Inl ConnectionError)
      else ([(DEBUG, MsgCallback callsign message)], Inr ()))"

text \<open>
  Environments. In \<open>good_env\<close> every library call returns and the operator
  interrupts the third sleep; in \<open>quiet_env\<close> nobody interrupts. In
  \<open>driver_without_close_env\<close> the driver object has no \<^verbatim>\<open>close\<close> method, so
  that \<^verbatim>\<open>self.driver.close()\<close> raises \<^verbatim>\<open>AttributeError\<close>; in
  \<open>broken_interface_close_env\<close> the mesh interface fails to close.
\<close>

definition good_env :: env where
  "good_env =
     \<lparr>tcp_connect = (\<lambda>h p. Inr alice_directory),
      driver_new = (\<lambda>c. Inr ()),
      sleep = (\<lambda>i. if i = 2 then Some KeyboardInterrupt else None),
      interface_close = Inr (),
      driver_close = Inr (),
      decimal = ascii_decimal\<rparr>"

definition quiet_env :: env where
  "quiet_env = good_env\<lparr>sleep := (\<lambda>i. None)\<rparr>"

definition driver_without_close_env :: env where
  "driver_without_close_env = good_env\<lparr>driver_close := Inl AttributeError\<rparr>"

definition broken_interface_close_env :: env where
  "broken_interface_close_env = good_env\<lparr>interface_close := Inl OSError\<rparr>"

definition some_config :: pyval where
  "some_config =
     VDict [(ustr ''meshtastic'', VDict [(ustr ''host'', VStr (ustr ''mesh.local''))]),
            (ustr ''mattermost'',
             VDict [(ustr ''host'', VStr (ustr ''chat.local'')), (ustr ''port'', VInt 8065)])]"

text \<open>The client and the world after the constructor has connected, and the chat client
  of the configuration below.\<close>

definition mesh_local_client :: meshtastic_client where
  "mesh_local_client =
     \<lparr>hostname = VStr (ustr ''mesh.local''), callback = mestastic_callback,
      interface = alice_directory\<rparr>"

definition connected_world :: world where
  "connected_world =
     \<lparr>logged = [(DEBUG, MsgConnected)], dispatched = [],
      effects = [Connect (VStr (ustr ''mesh.local'')) 4403,
                 Subscribe (ustr ''meshtastic.receive'')]\<rparr>"

definition chat_local_client :: mattermost_client where
  "chat_local_client =
     \<lparr>host = VStr (ustr ''chat.local''), team = VStr [], user = VStr [],
      mattermost_login_config =
        \<lparr>url = VStr (ustr ''chat.local''), token = VStr [], scheme = VStr (ustr ''http''),
         port = 8065, basepath = VStr (ustr ''/api/v4'')\<rparr>\<rparr>"

text \<open>
  A run in which the link is lost after a successful connection: the constructor,
  then a message on the topic of the lost connection.
\<close>

definition link_loss_run :: "unit res \<times> world" where
  "link_loss_run =
     (case MeshtasticClient_init good_env (VStr (ustr ''mesh.local'')) mestastic_callback
             empty_world of
        (Inl e, w) \<Rightarrow> (Inl e, w)
      | (Inr client, w) \<Rightarrow>
          pub_sendMessage ascii_upper client (ustr ''meshtastic.connection.lost'') VNone
            (interface client) w)"

section \<open>Properties\<close>

subsection \<open>Auxiliary facts\<close>

text \<open>The second argument of a bind is simplified only once the first is a value.\<close>

lemma bind_res_Inl [simp]: "bind_res (Inl e) f = Inl e" by (simp add: bind_res_def)
lemma bind_res_Inr [simp]: "bind_res (Inr x) f = f x" by (simp add: bind_res_def)
lemma bind_res_cong [cong]: "m = m' \<Longrightarrow> bind_res m f = bind_res m' f" by simp

lemma is_text_message_no_decoded:
  "map_of p (ustr ''decoded'') = None \<Longrightarrow> is_text_message (VDict p) = Inr False"
  by (simp add: is_text_message_def)

lemma is_text_message_decoded:
  "map_of p (ustr ''decoded'') = Some (VDict d) \<Longrightarrow>
   is_text_message (VDict p) =
     Inr (map_of d (ustr ''portnum'') = Some (VStr (ustr ''TEXT_MESSAGE_APP'')))"
  by (auto simp: is_text_message_def split: option.splits)

lemma split_ws_cur:
  "cur \<noteq> [] \<Longrightarrow>
   split_ws sp cur s =
     (cur @ takeWhile (\<lambda>x. \<not> sp x) s) # split_ws sp [] (dropWhile (\<lambda>x. \<not> sp x) s)"
  by (induction s arbitrary: cur) auto

lemma split_ws_skip: "split_ws sp [] s = split_ws sp [] (dropWhile sp s)"
  by (induction s) auto

lemma py_first_split_ws:
  "py_first (split_ws sp [] s) =
     (case spec_first_token sp s of None \<Rightarrow> Inl IndexError | Some t \<Rightarrow> Inr t)"
proof (cases "dropWhile sp s")
  case Nil
  have "split_ws sp [] s = split_ws sp [] (dropWhile sp s)"
    by (rule split_ws_skip)
  then have "split_ws sp [] s = []"
    unfolding Nil by simp
  moreover have "spec_first_token sp s = None"
    unfolding spec_first_token_def Nil by simp
  ultimately show ?thesis by simp
next
  case (Cons c cs)
  then have c: "\<not> sp c"
    by (metis hd_dropWhile list.sel(1) list.distinct(1))
  have "split_ws sp [] s = split_ws sp [] (c # cs)"
    using split_ws_skip [of sp s] unfolding Cons .
  also have "\<dots> = split_ws sp [c] cs"
    using c by simp
  also have "\<dots> = ([c] @ takeWhile (\<lambda>x. \<not> sp x) cs) # split_ws sp [] (dropWhile (\<lambda>x. \<not> sp x) cs)"
    by (rule split_ws_cur) simp
  finally have "py_first (split_ws sp [] s) = Inr (c # takeWhile (\<lambda>x. \<not> sp x) cs)"
    by simp
  moreover have "spec_first_token sp s = Some (c # takeWhile (\<lambda>x. \<not> sp x) cs)"
    unfolding spec_first_token_def Cons using c by simp
  ultimately show ?thesis by simp
qed

lemma id_to_name_loop_found:
  "map_of items k = Some node_info \<Longrightarrow>
   id_to_name_loop items (VStr k) =
     bind_res (py_getitem node_info (ustr ''user'')) (\<lambda>usr.
     bind_res (py_getitem usr (ustr ''longName'')) (\<lambda>long_name.
     bind_res (py_getitem usr (ustr ''shortName'')) (\<lambda>short_name.
     Inr (short_name, long_name))))"
  by (induction items) (auto split: if_splits)

lemma id_to_name_loop_missing:
  "map_of items k = None \<Longrightarrow> id_to_name_loop items (VStr k) = Inr (VStr [], VStr [])"
  by (induction items) (auto split: if_splits)

lemma id_to_name_loop_not_str:
  "(\<forall>k. ident \<noteq> VStr k) \<Longrightarrow> id_to_name_loop items ident = Inr (VStr [], VStr [])"
  by (induction items) auto

lemma on_receive_effects: "effects (snd (on_receive up cb packet iface w)) = effects w"
  by (auto simp: on_receive_def try_block_def except_UnicodeDecodeError_def
      split: sum.splits bool.splits prod.splits)

lemma py_first_map:
  "py_first (map f xs) = (case py_first xs of Inl e \<Rightarrow> Inl e | Inr x \<Rightarrow> Inr (f x))"
  by (cases xs) simp_all

lemma decode_message_known:
  assumes "map_of p (ustr ''decoded'') = Some (VDict d)"
    and "map_of d (ustr ''payload'') = Some (VBytes b)"
    and "utf8_decode b = Some msg"
    and "map_of p (ustr ''fromId'') = Some (VStr sender)"
    and "nodes iface = VDict dir"
    and "map_of dir sender = Some (VDict info)"
    and "map_of info (ustr ''user'') = Some (VDict u)"
    and "map_of u (ustr ''longName'') = Some (VStr long_name)"
    and "map_of u (ustr ''shortName'') = Some short_name"
  shows "decode_message up (VDict p) iface =
           (case spec_callsign up long_name of
              None \<Rightarrow> Inl IndexError
            | Some cs \<Rightarrow> Inr (msg, VStr cs))"
  using assms
  by (simp add: decode_message_def id_to_name_def id_to_name_loop_found py_first_map
      py_first_split_ws spec_callsign_def split: option.splits)

lemma on_receive_frame:
  "on_receive up cb p i w =
     (fst (on_receive up cb p i empty_world),
      w\<lparr>logged := logged w @ logged (snd (on_receive up cb p i empty_world)),
        dispatched := dispatched w @ dispatched (snd (on_receive up cb p i empty_world))\<rparr>)"
  by (simp add: on_receive_def try_block_def except_UnicodeDecodeError_def empty_world_def
      split: sum.splits bool.splits prod.splits)

lemma sleep_loop_stops:
  "sleep ev n = Some e \<Longrightarrow> (\<forall>k. i \<le> k \<and> k < n \<longrightarrow> sleep ev k = None) \<Longrightarrow> i \<le> n
   \<Longrightarrow> sleep_loop ev i = Some e"
proof (induction "n - i" arbitrary: i)
  case 0
  then have "i = n" by simp
  with 0 show ?case by (subst sleep_loop.simps) simp
next
  case (Suc m)
  then have "sleep ev i = None" "Suc i \<le> n" "m = n - Suc i" by auto
  moreover from Suc have "\<forall>k. Suc i \<le> k \<and> k < n \<longrightarrow> sleep ev k = None" by auto
  ultimately have "sleep_loop ev (Suc i) = Some e"
    using Suc.hyps(1) Suc.prems(1) by blast
  with \<open>sleep ev i = None\<close> show ?case by (subst sleep_loop.simps) simp
qed

lemma on_receive_invalid_utf8:
  assumes "map_of p (ustr ''decoded'') = Some (VDict d)"
    and "map_of d (ustr ''portnum'') = Some (VStr (ustr ''TEXT_MESSAGE_APP''))"
    and "map_of d (ustr ''payload'') = Some (VBytes b)"
    and "utf8_decode b = None"
  shows "on_receive up cb (VDict p) iface w
           = (Inr (), w\<lparr>logged := logged w @ [(DEBUG, MsgNonUtf8)]\<rparr>)"
  using assms
  by (simp add: on_receive_def is_text_message_decoded try_block_def decode_message_def
      except_UnicodeDecodeError_def)

lemma on_receive_unknown_sender:
  assumes "map_of p (ustr ''decoded'') = Some (VDict d)"
    and "map_of d (ustr ''portnum'') = Some (VStr (ustr ''TEXT_MESSAGE_APP''))"
    and "map_of d (ustr ''payload'') = Some (VBytes b)"
    and "utf8_decode b = Some msg"
    and "map_of p (ustr ''fromId'') = Some (VStr sender)"
    and "nodes iface = VDict dir"
    and "map_of dir sender = None"
  shows "on_receive up cb (VDict p) iface w = (Inl IndexError, w)"
  using assms
  by (simp add: on_receive_def is_text_message_decoded try_block_def decode_message_def
      id_to_name_def id_to_name_loop_missing except_UnicodeDecodeError_def)

lemma connects_on_receive: "connects (snd (on_receive up cb packet iface w)) = connects w"
  by (simp add: connects_def on_receive_effects)

lemma sleep_loop_never:
  assumes "\<forall>k. sleep ev k = None"
  shows "sleep_loop ev i = None"
proof (rule ccontr)
  assume "sleep_loop ev i \<noteq> None"
  then obtain e where "sleep_loop ev i = Some e" by auto
  then have "\<exists>k. sleep ev k \<noteq> None"
    by (rule sleep_loop.raw_induct [rotated, where P = "\<lambda>ev i e. \<exists>k. sleep ev k \<noteq> None"])
       (auto split: option.splits)
  with assms show False by simp
qed

lemma no_dispatch_without_decode:
  "(map_of p (ustr ''decoded'') = Some (VDict d) \<and> map_of d (ustr ''portnum'') = Some tag
      \<and> tag \<noteq> VStr (ustr ''TEXT_MESSAGE_APP'')
      \<longrightarrow> on_receive up cb (VDict p) iface w = (Inr (), w))
   \<and> ((is_text_message packet \<noteq> Inr True \<or> (\<exists>e. decode_message up packet iface = Inl e))
      \<longrightarrow> dispatched (snd (on_receive up cb packet iface w)) = dispatched w)"
  by (auto simp: on_receive_def is_text_message_decoded try_block_def
      except_UnicodeDecodeError_def split: sum.splits bool.splits)

lemma main_try_reaches_loop:
  assumes "py_get config (ustr ''meshtastic'') (VDict []) = Inr mesh_cfg"
    and "py_get config (ustr ''mattermost'') (VDict []) = Inr chat_cfg"
    and "py_get mesh_cfg (ustr ''host'') (VStr []) = Inr h"
    and "tcp_connect ev h 4403 = Inr i"
    and "MattermostClient_fields ev chat_cfg = Inr c"
    and "driver_new ev (mattermost_login_config c) = Inr ()"
  shows "main_try ev config w
           = map_option
               (\<lambda>e. (e, Some \<lparr>hostname = h, callback = mestastic_callback, interface = i\<rparr>,
                     Some c,
                     w\<lparr>logged := logged w @ [(DEBUG, MsgConnected)],
                       effects := effects w @ [Connect h 4403,
                                    Subscribe (ustr ''meshtastic.receive''), NewDriver]\<rparr>))
               (sleep_loop ev 0)"
  using assms
  by (simp add: main_try_def MeshtasticClient_init_def MattermostClient_init_def Let_def)

lemma mesh_connection_failure_is_fatal:
  assumes "py_get config (ustr ''meshtastic'') (VDict []) = Inr mesh_cfg"
    and "py_get config (ustr ''mattermost'') (VDict []) = Inr chat_cfg"
    and "py_get mesh_cfg (ustr ''host'') (VStr []) = Inr h"
    and "is_Exception e"
    and "tcp_connect ev h 4403 = Inl e"
  shows "MeshtasticClient_init ev h cb w
           = (Inl e, w\<lparr>logged := logged w @ [(ERROR, MsgConnectError e)],
                       effects := effects w @ [Connect h 4403]\<rparr>)
     \<and> main ev config w
           = Some (Inl e, w\<lparr>logged := logged w @ [(ERROR, MsgConnectError e)],
                            effects := effects w @ [Connect h 4403]\<rparr>)"
  using assms
  by (auto simp: main_def main_try_def MeshtasticClient_init_def main_finally_def
      is_Exception_def Let_def)

lemma driver_failure_is_raised:
  assumes "MattermostClient_fields ev chat_cfg = Inr c"
    and "driver_new ev (mattermost_login_config c) = Inl e"
    and "is_Exception e"
  shows "MattermostClient_init ev chat_cfg w
           = (Inl e, w\<lparr>logged := logged w @ [(ERROR, MsgMattermostError (host c))],
                       effects := effects w @ [NewDriver]\<rparr>)"
  using assms by (simp add: MattermostClient_init_def Let_def)

lemma interrupt_closes_clients_when_close_returns:
  assumes "py_get config (ustr ''meshtastic'') (VDict []) = Inr mesh_cfg"
    and "py_get config (ustr ''mattermost'') (VDict []) = Inr chat_cfg"
    and "py_get mesh_cfg (ustr ''host'') (VStr []) = Inr h"
    and "tcp_connect ev h 4403 = Inr i"
    and "MattermostClient_fields ev chat_cfg = Inr c"
    and "driver_new ev (mattermost_login_config c) = Inr ()"
    and "sleep ev n = Some KeyboardInterrupt"
    and "\<forall>k<n. sleep ev k = None"
    and "interface_close ev = Inr ()"
    and "driver_close ev = Inr ()"
  shows "main ev config w
       = Some (Inr (),
           w\<lparr>logged := logged w @ [(DEBUG, MsgConnected), (INFO, MsgExiting)],
             effects := effects w @ [Connect h 4403, Subscribe (ustr ''meshtastic.receive''),
                           NewDriver, CloseInterface, CloseDriver]\<rparr>)"
proof -
  have "sleep_loop ev 0 = Some KeyboardInterrupt"
    using assms(7,8) by (intro sleep_loop_stops [of ev n]) auto
  then show ?thesis
    using assms(1-6,9,10)
    by (simp add: main_def main_try_def MeshtasticClient_init_def MattermostClient_init_def
        main_finally_def MeshtasticClient_close_def MattermostClient_close_def Let_def)
qed

text \<open>The definitions that a run of the handler on a concrete packet unfolds.\<close>

lemmas handler_defs =
  ustr_def mestastic_callback_def on_receive_def is_text_message_def try_block_def
  decode_message_def id_to_name_def except_UnicodeDecodeError_def py_isspace_def
  ascii_upper_def cont_def

subsection \<open>Packets that are skipped\<close>

text \<open>
  Claim C10. A packet that has no decoded section at all, or whose decoded section
  has no port tag, is skipped: the handler returns normally and leaves the world as
  it was, so the callback is not invoked and nothing is logged.
\<close>

theorem on_receive_skips_undecoded:
  assumes "map_of p (ustr ''decoded'') = None
           \<or> (\<exists>d. map_of p (ustr ''decoded'') = Some (VDict d)
                    \<and> map_of d (ustr ''portnum'') = None)"
  shows "on_receive up cb (VDict p) iface w = (Inr (), w)"
  using assms
  by (auto simp: on_receive_def is_text_message_no_decoded is_text_message_decoded)

theorem on_receive_skips_undecoded_witness:
  "on_receive ascii_upper failing_callback undecoded_packet empty_directory empty_world
     = (Inr (), empty_world)
   \<and> on_receive ascii_upper failing_callback no_portnum_packet empty_directory empty_world
     = (Inr (), empty_world)"
proof -
  have a: "undecoded_packet =
     VDict [(ustr ''fromId'', VStr (ustr ''!abc123'')), (ustr ''encrypted'', VBytes [0x01])]"
    by (simp add: undecoded_packet_def)
  have b: "no_portnum_packet =
     VDict [(ustr ''decoded'', VDict [(ustr ''payload'', VBytes [0x48])]),
            (ustr ''fromId'', VStr (ustr ''!abc123''))]"
    by (simp add: no_portnum_packet_def)
  show ?thesis
    unfolding a b
    by (intro conjI on_receive_skips_undecoded) (simp_all add: ustr_def)
qed

text \<open>
  Claim C5 says that for every packet that fails to decode the handler yields
  \<^verbatim>\<open>None\<close> and the callback is not invoked. The callback is indeed never
  invoked without a decoded message (\<open>no_dispatch_without_decode\<close>), and a packet
  with another port tag is skipped with a normal return. But the text packet without
  payload passes the condition of the handler, fails to decode, and the handler
  raises \<^verbatim>\<open>KeyError\<close> instead of returning.
\<close>

theorem undecodable_text_packet_raises:
  "is_text_message no_payload_packet = Inr True
   \<and> decode_message ascii_upper no_payload_packet alice_directory
       = Inl (KeyError (ustr ''payload''))
   \<and> fst (on_receive ascii_upper mestastic_callback no_payload_packet alice_directory
            empty_world) = Inl (KeyError (ustr ''payload''))
   \<and> dispatched (snd (on_receive ascii_upper mestastic_callback no_payload_packet
                        alice_directory empty_world)) = []
   \<and> on_receive ascii_upper mestastic_callback position_packet alice_directory empty_world
       = (Inr (), empty_world)"
  by (simp add: handler_defs no_payload_packet_def position_packet_def alice_directory_def
      empty_world_def)

subsection \<open>Malformed text packets\<close>

text \<open>
  Claim C1 says that the handler never raises, whatever the packet. A text packet
  whose payload is not valid UTF-8 is indeed skipped with a debug record. But a
  text packet without the payload field raises \<^verbatim>\<open>KeyError\<close>, and so does one
  without the sender field: the \<^verbatim>\<open>except\<close> clause catches
  \<^verbatim>\<open>UnicodeDecodeError\<close> only.
\<close>

theorem malformed_text_packet_raises:
  "on_receive ascii_upper mestastic_callback no_payload_packet alice_directory empty_world
     = (Inl (KeyError (ustr ''payload'')), empty_world)
   \<and> on_receive ascii_upper mestastic_callback no_sender_packet alice_directory empty_world
     = (Inl (KeyError (ustr ''fromId'')), empty_world)
   \<and> on_receive ascii_upper mestastic_callback bad_utf8_packet alice_directory empty_world
     = (Inr (), empty_world\<lparr>logged := [(DEBUG, MsgNonUtf8)]\<rparr>)"
  by (simp add: handler_defs no_payload_packet_def no_sender_packet_def bad_utf8_packet_def
      alice_directory_def empty_world_def)

subsection \<open>The sender that the directory does not know\<close>

text \<open>
  Claim C2 says that a text message from a sender missing in the directory is
  forwarded with a placeholder callsign. The lookup does return the empty names, but
  the first token of the empty long name does not exist: \<^verbatim>\<open>split()[0]\<close> raises
  \<^verbatim>\<open>IndexError\<close>, which leaves the handler; the callback is not invoked.
\<close>

theorem unknown_sender_raises:
  "id_to_name empty_directory (VStr (ustr ''!abc123'')) = Inr (VStr [], VStr [])
   \<and> on_receive ascii_upper mestastic_callback hello_packet empty_directory empty_world
     = (Inl IndexError, empty_world)"
  by (simp add: handler_defs hello_packet_def empty_directory_def empty_world_def)

subsection \<open>The callsign of a known sender\<close>

text \<open>
  For a text packet whose sender has an entry in the directory with a
  \<^verbatim>\<open>user\<close> section that holds a long name and a short name, and whose long name
  has a first whitespace-delimited token, the callsign is that token in upper case,
  and the callback is invoked once with this callsign and the decoded text. The token
  is the one of \<^const>\<open>spec_first_token\<close>, the callsign the one of
  \<^const>\<open>spec_callsign\<close>. The second fact is the scenario of the specification.
\<close>

lemma callsign_of_known_sender:
  assumes "map_of p (ustr ''decoded'') = Some (VDict d)"
    and "map_of d (ustr ''portnum'') = Some (VStr (ustr ''TEXT_MESSAGE_APP''))"
    and "map_of d (ustr ''payload'') = Some (VBytes b)"
    and "utf8_decode b = Some msg"
    and "map_of p (ustr ''fromId'') = Some (VStr sender)"
    and "nodes iface = VDict dir"
    and "map_of dir sender = Some (VDict info)"
    and "map_of info (ustr ''user'') = Some (VDict u)"
    and "map_of u (ustr ''longName'') = Some (VStr long_name)"
    and "map_of u (ustr ''shortName'') = Some short_name"
    and "spec_callsign up long_name = Some cs"
  shows "decode_message up (VDict p) iface = Inr (msg, VStr cs)
         \<and> dispatched (snd (on_receive up cb (VDict p) iface w))
             = dispatched w @ [(VStr cs, msg)]"
proof -
  have t: "is_text_message (VDict p) = Inr True"
    using assms(1,2) by (simp add: is_text_message_decoded)
  have m: "decode_message up (VDict p) iface = Inr (msg, VStr cs)"
    using decode_message_known [OF assms(1) assms(3-10), of up] assms(11) by simp
  show ?thesis
    by (cases "cb (VStr cs) msg")
       (simp add: on_receive_def t m try_block_def except_UnicodeDecodeError_def)
qed

lemma callsign_of_alice:
  "decode_message ascii_upper hello_packet alice_directory
     = Inr (ustr ''Hello'', VStr (ustr ''ALICE''))
   \<and> dispatched (snd (on_receive ascii_upper mestastic_callback hello_packet alice_directory
                        empty_world)) = [(VStr (ustr ''ALICE''), ustr ''Hello'')]"
proof -
  have c: "spec_callsign ascii_upper (ustr ''Alice Example'') = Some (ustr ''ALICE'')"
    by (simp add: spec_callsign_def spec_first_token_def py_isspace_def ascii_upper_def ustr_def)
  have u: "utf8_decode [0x48, 0x65, 0x6C, 0x6C, 0x6F] = Some (ustr ''Hello'')"
    by (simp add: ustr_def)
  note t = callsign_of_known_sender
    [where p = "[(ustr ''decoded'',
                  VDict [(ustr ''portnum'', VStr (ustr ''TEXT_MESSAGE_APP'')),
                         (ustr ''payload'', VBytes [0x48, 0x65, 0x6C, 0x6C, 0x6F])]),
                 (ustr ''fromId'', VStr (ustr ''!abc123''))]"
       and d = "[(ustr ''portnum'', VStr (ustr ''TEXT_MESSAGE_APP'')),
                 (ustr ''payload'', VBytes [0x48, 0x65, 0x6C, 0x6C, 0x6F])]"
       and b = "[0x48, 0x65, 0x6C, 0x6C, 0x6F]" and msg = "ustr ''Hello''"
       and sender = "ustr ''!abc123''" and iface = alice_directory
       and dir = "[(ustr ''!abc123'',
                    VDict [(ustr ''num'', VInt 11256099),
                           (ustr ''user'',
                            VDict [(ustr ''id'', VStr (ustr ''!abc123'')),
                                   (ustr ''longName'', VStr (ustr ''Alice Example'')),
                                   (ustr ''shortName'', VStr (ustr ''ALEX''))])])]"
       and info = "[(ustr ''num'', VInt 11256099),
                    (ustr ''user'',
                     VDict [(ustr ''id'', VStr (ustr ''!abc123'')),
                            (ustr ''longName'', VStr (ustr ''Alice Example'')),
                            (ustr ''shortName'', VStr (ustr ''ALEX''))])]"
       and u = "[(ustr ''id'', VStr (ustr ''!abc123'')),
                 (ustr ''longName'', VStr (ustr ''Alice Example'')),
                 (ustr ''shortName'', VStr (ustr ''ALEX''))]"
       and long_name = "ustr ''Alice Example''" and short_name = "VStr (ustr ''ALEX'')"
       and up = ascii_upper and cs = "ustr ''ALICE''"
       and cb = mestastic_callback and w = empty_world,
     OF _ _ _ u _ _ _ _ _ _ c]
  have "decode_message ascii_upper hello_packet alice_directory
            = Inr (ustr ''Hello'', VStr (ustr ''ALICE''))
        \<and> dispatched (snd (on_receive ascii_upper mestastic_callback hello_packet
                 alice_directory empty_world))
            = dispatched empty_world @ [(VStr (ustr ''ALICE''), ustr ''Hello'')]"
    unfolding hello_packet_def
    by (rule t) (simp_all add: alice_directory_def, simp_all add: ustr_def)
  then show ?thesis
    by (simp add: empty_world_def)
qed

text \<open>
  Claim C4 says that for every text packet whose sender is found in the directory the
  callsign is the first token of the long name in upper case. A sender whose entry
  has the long name \<^verbatim>\<open>Alice Example\<close> and no short name is found, but
  \<^verbatim>\<open>_id_to_name\<close> reads the short name as well and raises \<^verbatim>\<open>KeyError\<close>:
  nothing is dispatched. The handler raises also for a sender found with a long name
  of blanks, and for one found without a \<^verbatim>\<open>user\<close> section.
\<close>

theorem known_sender_raises:
  "on_receive ascii_upper mestastic_callback hello_packet long_name_only_directory empty_world
     = (Inl (KeyError (ustr ''shortName'')), empty_world)
   \<and> on_receive ascii_upper mestastic_callback hello_packet blank_name_directory empty_world
     = (Inl IndexError, empty_world)
   \<and> on_receive ascii_upper mestastic_callback hello_packet no_user_directory empty_world
     = (Inl (KeyError (ustr ''user'')), empty_world)"
  by (simp add: handler_defs hello_packet_def long_name_only_directory_def
      blank_name_directory_def no_user_directory_def empty_world_def)

subsection \<open>Errors of the callback\<close>

text \<open>
  Claim C6 says that an error of the chat collaborator is caught and logged at the
  dispatch boundary. With a callback that raises \<^verbatim>\<open>ConnectionError\<close> the handler
  ends with that exception, and the log holds the debug record of the message only.
\<close>

theorem callback_error_counterexample:
  "on_receive ascii_upper failing_callback hello_packet alice_directory empty_world
     = (Inl ConnectionError,
        \<lparr>logged = [(DEBUG, MsgReceived (ustr ''Hello'') (VStr (ustr ''ALICE'')))],
         dispatched = [(VStr (ustr ''ALICE''), ustr ''Hello'')],
         effects = []\<rparr>)"
  by (simp add: handler_defs hello_packet_def alice_directory_def failing_callback_def
      empty_world_def)

text \<open>
  Claim C6 as amended: an exception of the callback other than
  \<^verbatim>\<open>UnicodeDecodeError\<close> leaves the handler as it is, after the debug record of
  the message and whatever the callback logged itself; the handler adds no record.
  The handler keeps no state: when the next text packet is handed to it, in the world
  left by the failed dispatch, it ends as it would have ended without the failure,
  and the callback is invoked with the callsign and the text of that packet. A
  failure for one event does not prevent the delivery of the next.
\<close>

theorem callback_error_propagates:
  assumes "is_text_message packet = Inr True"
    and "decode_message up packet iface = Inr (msg, cs)"
    and "cb cs msg = (records, Inl e)"
    and "e \<noteq> UnicodeDecodeError"
    and "is_text_message packet' = Inr True"
    and "decode_message up packet' iface' = Inr (msg', cs')"
  shows "on_receive up cb packet iface w =
           (Inl e, w\<lparr>logged := logged w @ (DEBUG, MsgReceived msg cs) # records,
                     dispatched := dispatched w @ [(cs, msg)]\<rparr>)
     \<and> fst (on_receive up cb packet' iface' (snd (on_receive up cb packet iface w)))
         = fst (on_receive up cb packet' iface' w)
     \<and> dispatched (snd (on_receive up cb packet' iface'
                           (snd (on_receive up cb packet iface w))))
         = dispatched w @ [(cs, msg), (cs', msg')]"
proof -
  have 1: "on_receive up cb packet iface w =
           (Inl e, w\<lparr>logged := logged w @ (DEBUG, MsgReceived msg cs) # records,
                     dispatched := dispatched w @ [(cs, msg)]\<rparr>)"
    using assms(1-4) by (simp add: on_receive_def try_block_def except_UnicodeDecodeError_def)
  have 2: "dispatched (snd (on_receive up cb packet' iface' v)) = dispatched v @ [(cs', msg')]"
    for v
    using assms(5,6)
    by (cases "cb cs' msg'")
       (simp add: on_receive_def try_block_def except_UnicodeDecodeError_def)
  have 3: "fst (on_receive up cb packet' iface' v) = fst (on_receive up cb packet' iface' w)"
    for v
    by (subst (1 2) on_receive_frame) simp
  show ?thesis
    by (intro conjI 1 3) (simp add: 1 2)
qed

theorem callback_error_propagates_witness:
  "on_receive ascii_upper fails_on_hello hello_packet alice_directory empty_world
     = (Inl ConnectionError,
        empty_world\<lparr>logged := logged empty_world
                        @ [(DEBUG, MsgReceived (ustr ''Hello'') (VStr (ustr ''ALICE'')))],
                     dispatched := dispatched empty_world
                        @ [(VStr (ustr ''ALICE''), ustr ''Hello'')]\<rparr>)
   \<and> fst (on_receive ascii_upper fails_on_hello bye_packet alice_directory
            (snd (on_receive ascii_upper fails_on_hello hello_packet alice_directory
                    empty_world))) = Inr ()
   \<and> dispatched (snd (on_receive ascii_upper fails_on_hello bye_packet alice_directory
            (snd (on_receive ascii_upper fails_on_hello hello_packet alice_directory
                    empty_world))))
       = [(VStr (ustr ''ALICE''), ustr ''Hello''), (VStr (ustr ''ALICE''), ustr ''Bye'')]"
proof -
  have a: "is_text_message hello_packet = Inr True"
    by (simp add: is_text_message_def hello_packet_def ustr_def)
  have b: "decode_message ascii_upper hello_packet alice_directory
          = Inr (ustr ''Hello'', VStr (ustr ''ALICE''))"
    by (simp add: handler_defs hello_packet_def alice_directory_def)
  have c: "fails_on_hello (VStr (ustr ''ALICE'')) (ustr ''Hello'') = ([], Inl ConnectionError)"
    by (simp add: fails_on_hello_def)
  have d: "ConnectionError \<noteq> UnicodeDecodeError"
    by simp
  have a': "is_text_message bye_packet = Inr True"
    by (simp add: is_text_message_def bye_packet_def ustr_def)
  have b': "decode_message ascii_upper bye_packet alice_directory
          = Inr (ustr ''Bye'', VStr (ustr ''ALICE''))"
    by (simp add: handler_defs bye_packet_def alice_directory_def)
  have r: "fst (on_receive ascii_upper fails_on_hello bye_packet alice_directory empty_world)
             = Inr ()"
    by (simp add: handler_defs bye_packet_def alice_directory_def fails_on_hello_def)
  have e: "dispatched empty_world = []"
    by (simp add: empty_world_def)
  from callback_error_propagates [where cb = fails_on_hello and w = empty_world, OF a b c d a' b']
  show ?thesis
    unfolding r e append_Nil .
qed

subsection \<open>Loss of the link\<close>

text \<open>
  Claim C3 says that after a link loss the client goes back to connecting and
  retries. In the run \<^const>\<open>link_loss_run\<close> the constructor connects, then the
  message of the lost connection is published: it reaches no listener, the world
  stays as the constructor left it, and the connection attempt of the constructor
  is the only one.
\<close>

theorem link_loss_counterexample:
  "link_loss_run = (Inr (), connected_world)
   \<and> connects connected_world = [Connect (VStr (ustr ''mesh.local'')) 4403]"
  by (simp add: link_loss_run_def MeshtasticClient_init_def good_env_def empty_world_def
      connected_world_def pub_sendMessage_def subscribed_def topic_covers_def connects_def
      ustr_def)

text \<open>
  Claim C3 as amended: the client connects once, in its constructor, and subscribes
  to \<^verbatim>\<open>meshtastic.receive\<close> only. Whatever message is published afterwards, it
  makes no further connection attempt; a message on a topic outside
  \<^verbatim>\<open>meshtastic.receive\<close>, such as the loss of the link, changes nothing and
  raises nothing; a message on \<^verbatim>\<open>meshtastic.receive\<close> is handled by
  \<^verbatim>\<open>_on_receive\<close> as before, without a restart.
\<close>

theorem client_never_reconnects:
  assumes "MeshtasticClient_init ev h cb w = (Inr client, w1)"
    and "\<forall>t. Subscribe t \<notin> set (effects w)"
  shows "connects w1 = connects w @ [Connect h 4403]
     \<and> connects (snd (pub_sendMessage up client topic packet iface w1)) = connects w1
     \<and> (\<not> topic_covers (ustr ''meshtastic.receive'') topic
          \<longrightarrow> pub_sendMessage up client topic packet iface w1 = (Inr (), w1))
     \<and> (topic_covers (ustr ''meshtastic.receive'') topic
          \<longrightarrow> pub_sendMessage up client topic packet iface w1
                = on_receive up cb packet iface w1)"
proof -
  from assms(1) obtain i where i: "tcp_connect ev h 4403 = Inr i"
    and c: "client = \<lparr>hostname = h, callback = cb, interface = i\<rparr>"
    and w1: "w1 = w\<lparr>logged := logged w @ [(DEBUG, MsgConnected)],
                     effects := effects w @ [Connect h 4403, Subscribe (ustr ''meshtastic.receive'')]\<rparr>"
    by (auto simp: MeshtasticClient_init_def Let_def split: sum.splits if_splits)
  have s: "subscribed w1 m \<longleftrightarrow> topic_covers (ustr ''meshtastic.receive'') m" for m
    using assms(2) by (auto simp: subscribed_def w1 split: effect.splits)
  show ?thesis
    by (simp add: pub_sendMessage_def s connects_on_receive c) (simp add: w1 connects_def)
qed

theorem client_never_reconnects_witness:
  "connects connected_world = connects empty_world @ [Connect (VStr (ustr ''mesh.local'')) 4403]
   \<and> pub_sendMessage ascii_upper mesh_local_client (ustr ''meshtastic.connection.lost'') VNone
        alice_directory connected_world = (Inr (), connected_world)
   \<and> pub_sendMessage ascii_upper mesh_local_client (ustr ''meshtastic.receive'') hello_packet
        alice_directory connected_world
       = on_receive ascii_upper mestastic_callback hello_packet alice_directory connected_world"
proof -
  have i: "MeshtasticClient_init good_env (VStr (ustr ''mesh.local'')) mestastic_callback
             empty_world = (Inr mesh_local_client, connected_world)"
    by (simp add: MeshtasticClient_init_def good_env_def empty_world_def mesh_local_client_def
        connected_world_def)
  have n: "\<forall>t. Subscribe t \<notin> set (effects empty_world)"
    by (simp add: empty_world_def)
  have a: "\<not> topic_covers (ustr ''meshtastic.receive'') (ustr ''meshtastic.connection.lost'')"
    by (simp add: topic_covers_def ustr_def)
  have b: "topic_covers (ustr ''meshtastic.receive'') (ustr ''meshtastic.receive'')"
    by (simp add: topic_covers_def)
  from client_never_reconnects [OF i n, of ascii_upper "ustr ''meshtastic.connection.lost''" VNone alice_directory]
       client_never_reconnects [OF i n, of ascii_upper "ustr ''meshtastic.receive''" hello_packet alice_directory]
  show ?thesis
    using a b by simp
qed

subsection \<open>Failure of the initial connections\<close>

text \<open>Runs of \<^verbatim>\<open>main\<close> on the configuration \<open>some_config\<close>.\<close>

lemma some_config_gets:
  "py_get some_config (ustr ''meshtastic'') (VDict [])
     = Inr (VDict [(ustr ''host'', VStr (ustr ''mesh.local''))])"
  "py_get some_config (ustr ''mattermost'') (VDict [])
     = Inr (VDict [(ustr ''host'', VStr (ustr ''chat.local'')), (ustr ''port'', VInt 8065)])"
  "py_get (VDict [(ustr ''host'', VStr (ustr ''mesh.local''))]) (ustr ''host'') (VStr [])
     = Inr (VStr (ustr ''mesh.local''))"
  by (simp_all add: some_config_def ustr_def)

lemma some_config_fields:
  "decimal ev = ascii_decimal \<Longrightarrow>
   MattermostClient_fields ev
     (VDict [(ustr ''host'', VStr (ustr ''chat.local'')), (ustr ''port'', VInt 8065)])
     = Inr chat_local_client"
  by (simp add: MattermostClient_fields_def chat_local_client_def ustr_def)

lemma third_sleep_interrupted:
  "sleep ev = (\<lambda>i. if i = 2 then Some KeyboardInterrupt else None)
   \<Longrightarrow> sleep_loop ev 0 = Some KeyboardInterrupt"
  by (rule sleep_loop_stops [of ev 2]) simp_all

lemma some_config_try:
  assumes "tcp_connect ev = (\<lambda>h p. Inr alice_directory)"
    and "driver_new ev = (\<lambda>c. Inr ())"
    and "decimal ev = ascii_decimal"
  shows "main_try ev some_config empty_world
           = map_option
               (\<lambda>e. (e, Some mesh_local_client, Some chat_local_client,
                     \<lparr>logged = [(DEBUG, MsgConnected)], dispatched = [],
                      effects = [Connect (VStr (ustr ''mesh.local'')) 4403,
                                 Subscribe (ustr ''meshtastic.receive''), NewDriver]\<rparr>))
               (sleep_loop ev 0)"
  by (subst main_try_reaches_loop
        [OF some_config_gets, of ev alice_directory chat_local_client])
     (simp_all add: assms some_config_fields mesh_local_client_def empty_world_def)

text \<open>
  Claim C7 says that a failure to establish the initial connection to the mesh device
  or to the chat collaborator is fatal. For the mesh device it is
  (\<open>mesh_connection_failure_is_fatal\<close>). The constructor of the chat client,
  however, only constructs the driver object and never logs in: no connection to the
  chat server is attempted, so that its failure cannot be noticed. Whatever the state
  of the chat server, both clients are constructed, no error is logged, and the body
  of the \<^verbatim>\<open>try\<close> ends only with the interrupt of the operator; without an
  interrupt \<^verbatim>\<open>main\<close> runs for ever.
\<close>

theorem unreachable_chat_server_is_not_fatal:
  "main_try good_env some_config empty_world
     = Some (KeyboardInterrupt, Some mesh_local_client, Some chat_local_client,
             \<lparr>logged = [(DEBUG, MsgConnected)], dispatched = [],
              effects = [Connect (VStr (ustr ''mesh.local'')) 4403,
                         Subscribe (ustr ''meshtastic.receive''), NewDriver]\<rparr>)
   \<and> main quiet_env some_config empty_world = None"
proof -
  have g: "tcp_connect good_env = (\<lambda>h p. Inr alice_directory)"
    "driver_new good_env = (\<lambda>c. Inr ())" "decimal good_env = ascii_decimal"
    "sleep good_env = (\<lambda>i. if i = 2 then Some KeyboardInterrupt else None)"
    by (simp_all add: good_env_def)
  have q: "tcp_connect quiet_env = (\<lambda>h p. Inr alice_directory)"
    "driver_new quiet_env = (\<lambda>c. Inr ())" "decimal quiet_env = ascii_decimal"
    "\<forall>k. sleep quiet_env k = None"
    by (simp_all add: quiet_env_def good_env_def)
  have l: "sleep_loop good_env 0 = Some KeyboardInterrupt"
    by (rule third_sleep_interrupted) (rule g)
  have l': "sleep_loop quiet_env 0 = None"
    by (rule sleep_loop_never) (rule q)
  show ?thesis
    by (simp add: main_def some_config_try g q l l')
qed

subsection \<open>Shutdown on interrupt\<close>

text \<open>
  Claim C9 says that on an interrupt the close operation is invoked on the mesh
  connection and on the connection of the chat collaborator. When both
  \<^verbatim>\<open>close\<close> calls return, it is so
  (\<open>interrupt_closes_clients_when_close_returns\<close>). But the driver object has no
  \<^verbatim>\<open>close\<close> method: \<^verbatim>\<open>self.driver.close()\<close> raises
  \<^verbatim>\<open>AttributeError\<close>, the chat connection is not closed, and \<^verbatim>\<open>main\<close> ends
  with that exception instead of returning. And when the close of the mesh interface
  raises, the \<^verbatim>\<open>finally\<close> clause is left before the chat client is closed.
\<close>

theorem interrupt_does_not_close_chat:
  "main driver_without_close_env some_config empty_world
     = Some (Inl AttributeError,
             \<lparr>logged = [(DEBUG, MsgConnected), (INFO, MsgExiting)], dispatched = [],
              effects = [Connect (VStr (ustr ''mesh.local'')) 4403,
                         Subscribe (ustr ''meshtastic.receive''), NewDriver,
                         CloseInterface, CloseDriver]\<rparr>)
   \<and> main broken_interface_close_env some_config empty_world
     = Some (Inl OSError,
             \<lparr>logged = [(DEBUG, MsgConnected), (INFO, MsgExiting)], dispatched = [],
              effects = [Connect (VStr (ustr ''mesh.local'')) 4403,
                         Subscribe (ustr ''meshtastic.receive''), NewDriver,
                         CloseInterface]\<rparr>)"
proof -
  have d: "tcp_connect driver_without_close_env = (\<lambda>h p. Inr alice_directory)"
    "driver_new driver_without_close_env = (\<lambda>c. Inr ())"
    "decimal driver_without_close_env = ascii_decimal"
    "sleep driver_without_close_env = (\<lambda>i. if i = 2 then Some KeyboardInterrupt else None)"
    "interface_close driver_without_close_env = Inr ()"
    "driver_close driver_without_close_env = Inl AttributeError"
    by (simp_all add: driver_without_close_env_def good_env_def)
  have b: "tcp_connect broken_interface_close_env = (\<lambda>h p. Inr alice_directory)"
    "driver_new broken_interface_close_env = (\<lambda>c. Inr ())"
    "decimal broken_interface_close_env = ascii_decimal"
    "sleep broken_interface_close_env
       = (\<lambda>i. if i = 2 then Some KeyboardInterrupt else None)"
    "interface_close broken_interface_close_env = Inl OSError"
    by (simp_all add: broken_interface_close_env_def good_env_def)
  have l: "sleep_loop driver_without_close_env 0 = Some KeyboardInterrupt"
    by (rule third_sleep_interrupted) (rule d)
  have l': "sleep_loop broken_interface_close_env 0 = Some KeyboardInterrupt"
    by (rule third_sleep_interrupted) (rule b)
  show ?thesis
    by (simp add: main_def some_config_try d b l l' main_finally_def
        MeshtasticClient_close_def MattermostClient_close_def)
qed

end
